theory Spec2Isabelle
  imports Main
begin

section \<open>The command-line entry point of dbmate (main.go)\<close>

text \<open>
  The program is one Go file: \<^verbatim>\<open>main.go\<close>. Every subcommand is a closure wrapped by
  \<^verbatim>\<open>action\<close>, which resolves the database URL, builds the engine handle and calls the
  closure. The \<^verbatim>\<open>migrate\<close> closure posts a Slack notification when the migration fails
  and the webhook variable is set; the \<^verbatim>\<open>status\<close> closure turns pending migrations into
  an exit signal.

  Everything the program does beyond returning a value (calls into the engine, text on
  standard output, the HTTP POST) is recorded in a trace of events, in program order.
  What lies outside \<^verbatim>\<open>main.go\<close> (the process environment, the migration engine, the
  transport of the POST, the string-literal encoder of encoding/json, the URL parser on
  non-empty input) is a field of the record \<open>world\<close>, so every theorem holds for any
  behaviour of these parts.
\<close>

subsection \<open>Go values: errors, slices, URLs\<close>

text \<open>
  A Go \<^verbatim>\<open>error\<close> is an interface value; \<^verbatim>\<open>nil\<close> is \<open>None\<close>. Two kinds of error occur
  in \<^verbatim>\<open>main.go\<close>: ordinary errors, known only by their message, and the exit signal that
  \<^verbatim>\<open>cli.NewExitError(message, exitCode)\<close> builds.
\<close>

datatype error = GoError string | ExitError string int

fun Error :: "error \<Rightarrow> string" where
  "Error (GoError msg) = msg"
| "Error (ExitError msg code) = msg"

fun ExitCode :: "error \<Rightarrow> int option" where
  "ExitCode (GoError msg) = None"
| "ExitCode (ExitError msg code) = Some code"

definition NewExitError :: "string \<Rightarrow> int \<Rightarrow> error" where
  "NewExitError message exitCode = ExitError message exitCode"

text \<open>
  A Go slice is either \<^verbatim>\<open>nil\<close> or holds a sequence; \<^verbatim>\<open>make([]T, 0)\<close> is an empty slice
  that is not \<^verbatim>\<open>nil\<close>, and \<^verbatim>\<open>append\<close> never returns \<^verbatim>\<open>nil\<close> when it adds an element.
  encoding/json tells the two apart.
\<close>

datatype 'a slice = nil_slice | Slice "'a list"

definition make_slice :: "'a slice" where
  "make_slice = Slice []"

fun append_slice :: "'a slice \<Rightarrow> 'a \<Rightarrow> 'a slice" where
  "append_slice nil_slice x = Slice [x]"
| "append_slice (Slice xs) x = Slice (xs @ [x])"

text \<open>The fields of \<^verbatim>\<open>url.URL\<close>; the user information is a name and an optional password.\<close>

record URL =
  Scheme :: string
  Opaque :: string
  User :: "(string \<times> string option) option"
  Host :: string
  Path :: string
  RawPath :: string
  ForceQuery :: bool
  RawQuery :: string
  Fragment :: string

definition empty_URL :: URL where
  "empty_URL = \<lparr>Scheme = [], Opaque = [], User = None, Host = [], Path = [], RawPath = [],
     ForceQuery = False, RawQuery = [], Fragment = []\<rparr>"

subsection \<open>The structs of main.go\<close>

record Field =
  Title :: string
  Value :: string

record SlackAttachment =
  Color :: string
  Pretext :: string
  Fallback :: string
  Text :: string
  Fields :: "Field slice"

record SlackMessage =
  Attachments :: "SlackAttachment slice"

text \<open>The handle of the engine, \<^verbatim>\<open>dbmate.DB\<close>, with the fields \<^verbatim>\<open>action\<close> sets.\<close>

record DB =
  DatabaseURL :: URL
  AutoDumpSchema :: bool
  MigrationsDir :: string
  SchemaFile :: string
  WaitBefore :: bool

text \<open>
  The parsed command line, \<^verbatim>\<open>cli.Context\<close>: the values of the global flags, of the
  subcommand's own flags, and the positional arguments. A lookup of a flag that is not
  there gives the zero value.
\<close>

record Context =
  globalStringFlags :: "string \<rightharpoonup> string"
  globalBoolFlags :: "string \<rightharpoonup> bool"
  boolFlags :: "string \<rightharpoonup> bool"
  args :: "string list"

definition GlobalString :: "Context \<Rightarrow> string \<Rightarrow> string" where
  "GlobalString c name = (case globalStringFlags c name of None \<Rightarrow> [] | Some v \<Rightarrow> v)"

definition GlobalBool :: "Context \<Rightarrow> string \<Rightarrow> bool" where
  "GlobalBool c name = (case globalBoolFlags c name of None \<Rightarrow> False | Some b \<Rightarrow> b)"

definition Bool :: "Context \<Rightarrow> string \<Rightarrow> bool" where
  "Bool c name = (case boolFlags c name of None \<Rightarrow> False | Some b \<Rightarrow> b)"

definition Args_First :: "Context \<Rightarrow> string" where
  "Args_First c = (case args c of [] \<Rightarrow> [] | a # _ \<Rightarrow> a)"

subsection \<open>Events and the world outside main.go\<close>

datatype engine_op =
    Op_NewMigration string
  | Op_CreateAndMigrate
  | Op_Create
  | Op_Drop
  | Op_Migrate
  | Op_Rollback
  | Op_Status bool
  | Op_DumpSchema
  | Op_Wait

datatype event =
    Dbmate_New URL
  | Engine_call DB engine_op
  | Stdout string
  | HTTP_POST string string string

record world =
  environ :: "string \<rightharpoonup> string"
  url_parse_nonempty :: "string \<Rightarrow> error + URL"
  dbmate_New :: "URL \<Rightarrow> DB"
  db_NewMigration :: "DB \<Rightarrow> string \<Rightarrow> error option"
  db_CreateAndMigrate :: "DB \<Rightarrow> error option"
  db_Create :: "DB \<Rightarrow> error option"
  db_Drop :: "DB \<Rightarrow> error option"
  db_Migrate :: "DB \<Rightarrow> error option"
  db_Rollback :: "DB \<Rightarrow> error option"
  db_Status :: "DB \<Rightarrow> bool \<Rightarrow> int \<times> error option"
  db_DumpSchema :: "DB \<Rightarrow> error option"
  db_Wait :: "DB \<Rightarrow> error option"
  http_Post :: "string \<Rightarrow> string \<Rightarrow> string \<Rightarrow> error option"
  json_string :: "string \<Rightarrow> string"

subsection \<open>Library functions main.go calls\<close>

text \<open>
  \<^verbatim>\<open>os.LookupEnv\<close> and \<^verbatim>\<open>os.Getenv\<close>. The empty name is never found (the Go runtime
  answers for it before it looks at the environment); \<^verbatim>\<open>Getenv\<close> gives the empty string
  for a variable that is not set.
\<close>

definition os_LookupEnv :: "world \<Rightarrow> string \<Rightarrow> string option" where
  "os_LookupEnv w key = (if key = [] then None else environ w key)"

definition os_Getenv :: "world \<Rightarrow> string \<Rightarrow> string" where
  "os_Getenv w key = (case os_LookupEnv w key of None \<Rightarrow> [] | Some v \<Rightarrow> v)"

text \<open>
  \<^verbatim>\<open>strings.Split(s, sep)\<close> for a separator of one byte, the only way \<^verbatim>\<open>main.go\<close> calls
  it: the pieces of \<open>s\<close> between the separators, read from left to right; \<open>cur\<close> is the
  piece being read. A string without a separator is one piece, also when it is empty.
\<close>

fun split_from :: "char \<Rightarrow> string \<Rightarrow> string \<Rightarrow> string list" where
  "split_from sep cur [] = [cur]"
| "split_from sep cur (c # cs) =
     (if c = sep then cur # split_from sep [] cs else split_from sep (cur @ [c]) cs)"

definition strings_Split :: "string \<Rightarrow> char \<Rightarrow> string list" where
  "strings_Split s sep = split_from sep [] s"

text \<open>\<^verbatim>\<open>strings.Join\<close>, used by the formatting below.\<close>

fun strings_Join :: "string list \<Rightarrow> string \<Rightarrow> string" where
  "strings_Join [] sep = []"
| "strings_Join [x] sep = x"
| "strings_Join (x # y # ys) sep = x @ sep @ strings_Join (y # ys) sep"

text \<open>The verb \<^verbatim>\<open>%s\<close> of \<^verbatim>\<open>fmt\<close> on a slice of strings: the elements between brackets.\<close>

definition fmt_strings :: "string list \<Rightarrow> string" where
  "fmt_strings xs = ''['' @ strings_Join xs '' '' @ '']''"

definition newline :: string where
  "newline = [CHR 0x0A]"

text \<open>
  Modelled from the spec: \<^verbatim>\<open>url.Parse\<close> of Go's net/url, which is not under src/. The
  spec says of it that an empty string "must still be attempted as a URL parse (producing
  a well-formed but semantically empty URL)" and that "parsing itself does not fail on
  empty input"; on any other input it "fails with ConfigurationError" or gives the parsed
  URL, which the world decides.
\<close>

definition url_Parse :: "world \<Rightarrow> string \<Rightarrow> error + URL" where
  "url_Parse w rawurl = (if rawurl = [] then Inr empty_URL else url_parse_nonempty w rawurl)"

subsection \<open>encoding/json on the structs of main.go\<close>

datatype json = JNull | JString string | JArray "json list" | JObject "(string \<times> json) list"

definition slice_json :: "('a \<Rightarrow> json) \<Rightarrow> 'a slice \<Rightarrow> json" where
  "slice_json f s = (case s of nil_slice \<Rightarrow> JNull | Slice xs \<Rightarrow> JArray (map f xs))"

definition Field_json :: "Field \<Rightarrow> json" where
  "Field_json f = JObject [(''title'', JString (Title f)), (''value'', JString (Value f))]"

definition SlackAttachment_json :: "SlackAttachment \<Rightarrow> json" where
  "SlackAttachment_json a = JObject
     [(''color'', JString (Color a)),
      (''pretext'', JString (Pretext a)),
      (''fallback'', JString (Fallback a)),
      (''text'', JString (Text a)),
      (''fields'', slice_json Field_json (Fields a))]"

definition SlackMessage_json :: "SlackMessage \<Rightarrow> json" where
  "SlackMessage_json m = JObject [(''attachments'', slice_json SlackAttachment_json (Attachments m))]"

text \<open>
  The compact text \<^verbatim>\<open>json.Marshal\<close> writes. \<open>enc\<close> writes a string value as a JSON
  string literal (quotes and escapes); the keys are the tags of the structs, which need
  no escape.
\<close>

fun json_text :: "(string \<Rightarrow> string) \<Rightarrow> json \<Rightarrow> string" where
  "json_text enc JNull = ''null''"
| "json_text enc (JString s) = enc s"
| "json_text enc (JArray xs) = ''['' @ strings_Join (map (json_text enc) xs) '','' @ '']''"
| "json_text enc (JObject kvs) =
     ''{'' @ strings_Join (map (\<lambda>kv. [CHR 0x22] @ fst kv @ [CHR 0x22] @ '':'' @ json_text enc (snd kv)) kvs) '',''
       @ ''}''"

definition json_Marshal :: "world \<Rightarrow> SlackMessage \<Rightarrow> string" where
  "json_Marshal w m = json_text (json_string w) (SlackMessage_json m)"

subsection \<open>getDatabaseURL and the wrapper action\<close>

text \<open>
  The result of running an action: the error it returns (\<open>None\<close> for \<^verbatim>\<open>nil\<close>) and the
  events it caused, in order.
\<close>

type_synonym outcome = "error option \<times> event list"

definition getDatabaseURL :: "world \<Rightarrow> Context \<Rightarrow> error + URL" where
  "getDatabaseURL w c =
     (let env = GlobalString c ''env'';
          val = os_Getenv w env
      in url_Parse w val)"

text \<open>
  The handle \<^verbatim>\<open>action\<close> builds from the parsed URL: \<^verbatim>\<open>dbmate.New(u)\<close>, then the four
  assignments to its fields.
\<close>

definition configure :: "world \<Rightarrow> Context \<Rightarrow> URL \<Rightarrow> DB" where
  "configure w c u =
     (let db = dbmate_New w u;
          db = db\<lparr>AutoDumpSchema := \<not> GlobalBool c ''no-dump-schema''\<rparr>;
          db = db\<lparr>MigrationsDir := GlobalString c ''migrations-dir''\<rparr>;
          db = db\<lparr>SchemaFile := GlobalString c ''schema-file''\<rparr>;
          db = db\<lparr>WaitBefore := GlobalBool c ''wait''\<rparr>
      in db)"

definition action :: "world \<Rightarrow> (DB \<Rightarrow> Context \<Rightarrow> outcome) \<Rightarrow> Context \<Rightarrow> outcome" where
  "action w f c =
     (case getDatabaseURL w c of
        Inl err \<Rightarrow> (Some err, [])
      | Inr u \<Rightarrow>
          (let db = configure w c u;
               r = f db c
           in (fst r, Dbmate_New u # snd r)))"

subsection \<open>The closures of the subcommands\<close>

definition new_closure :: "world \<Rightarrow> DB \<Rightarrow> Context \<Rightarrow> outcome" where
  "new_closure w db c =
     (let name = Args_First c
      in (db_NewMigration w db name, [Engine_call db (Op_NewMigration name)]))"

definition up_closure :: "world \<Rightarrow> DB \<Rightarrow> Context \<Rightarrow> outcome" where
  "up_closure w db c = (db_CreateAndMigrate w db, [Engine_call db Op_CreateAndMigrate])"

definition create_closure :: "world \<Rightarrow> DB \<Rightarrow> Context \<Rightarrow> outcome" where
  "create_closure w db c = (db_Create w db, [Engine_call db Op_Create])"

definition drop_closure :: "world \<Rightarrow> DB \<Rightarrow> Context \<Rightarrow> outcome" where
  "drop_closure w db c = (db_Drop w db, [Engine_call db Op_Drop])"

definition rollback_closure :: "world \<Rightarrow> DB \<Rightarrow> Context \<Rightarrow> outcome" where
  "rollback_closure w db c = (db_Rollback w db, [Engine_call db Op_Rollback])"

definition dump_closure :: "world \<Rightarrow> DB \<Rightarrow> Context \<Rightarrow> outcome" where
  "dump_closure w db c = (db_DumpSchema w db, [Engine_call db Op_DumpSchema])"

definition wait_closure :: "world \<Rightarrow> DB \<Rightarrow> Context \<Rightarrow> outcome" where
  "wait_closure w db c = (db_Wait w db, [Engine_call db Op_Wait])"

text \<open>
  The loop of the \<^verbatim>\<open>migrate\<close> closure over the names of \<^verbatim>\<open>env_vars\<close>: a name found in
  the environment appends a field to the slice \<open>fields'\<close> (\<^verbatim>\<open>fields\<close> in the source).
\<close>

fun collect_fields :: "world \<Rightarrow> string list \<Rightarrow> Field slice \<Rightarrow> Field slice" where
  "collect_fields w [] fields' = fields'"
| "collect_fields w (env_var_name # rest) fields' =
     (let env_var_exists = (os_LookupEnv w env_var_name \<noteq> None)
      in if env_var_exists
         then collect_fields w rest
                (append_slice fields' \<lparr>Title = env_var_name, Value = os_Getenv w env_var_name\<rparr>)
         else collect_fields w rest fields')"

text \<open>
  The \<^verbatim>\<open>migrate\<close> closure. The test \<^verbatim>\<open>err != nil && webhook_env_exists\<close> is the case on
  \<open>err\<close> followed by the test of \<open>webhook_env_exists\<close>. The \<^verbatim>\<open>err\<close> of the POST is a new
  variable of the inner block (\<open>post_err\<close> here); the closure returns the outer \<open>err\<close>, the
  one \<^verbatim>\<open>db.Migrate()\<close> gave.
\<close>

definition migrate_closure :: "world \<Rightarrow> DB \<Rightarrow> Context \<Rightarrow> outcome" where
  "migrate_closure w db c =
     (let err = db_Migrate w db;
          webhook_env_exists = (os_LookupEnv w (GlobalString c ''slack-webhook-var'') \<noteq> None)
      in case err of
           None \<Rightarrow> (err, [Engine_call db Op_Migrate])
         | Some e \<Rightarrow>
             if webhook_env_exists then
               (let env_vars = strings_Split (GlobalString c ''env-vars'') (CHR '','');
                    fields' = collect_fields w env_vars make_slice;
                    slack_message = \<lparr>Attachments = Slice
                      [\<lparr>Color = ''#FF0000'',
                        Pretext = ''There was an issue running migrations on this instance.'',
                        Fallback = ''Migration had error: '' @ Error e,
                        Text = Error e,
                        Fields = fields'\<rparr>]\<rparr>;
                    url = os_Getenv w (GlobalString c ''slack-webhook-var'');
                    body = json_Marshal w slack_message;
                    post_err = http_Post w url ''application/json'' body
                in (err,
                    [Engine_call db Op_Migrate,
                     Stdout (''env-vars split: '' @ fmt_strings env_vars @ newline),
                     HTTP_POST url ''application/json'' body]
                    @ (if post_err \<noteq> None
                       then [Stdout (''could not send to webhook: '' @ url @ newline)]
                       else [])))
             else (err, [Engine_call db Op_Migrate]))"

text \<open>The \<^verbatim>\<open>status\<close> closure.\<close>

definition status_closure :: "world \<Rightarrow> DB \<Rightarrow> Context \<Rightarrow> outcome" where
  "status_closure w db c =
     (let setExitCode = Bool c ''exit-code'';
          quiet = Bool c ''quiet'';
          setExitCode = (if quiet then True else setExitCode);
          r = db_Status w db quiet;
          pending = fst r;
          err = snd r
      in if err \<noteq> None then (err, [Engine_call db (Op_Status quiet)])
         else if pending > 0 \<and> setExitCode
         then (Some (NewExitError [] 1), [Engine_call db (Op_Status quiet)])
         else (None, [Engine_call db (Op_Status quiet)]))"

text \<open>The subcommands of \<^verbatim>\<open>NewApp\<close>, each with its closure wrapped by \<^verbatim>\<open>action\<close>.\<close>

datatype command =
  Cmd_new | Cmd_up | Cmd_create | Cmd_drop | Cmd_migrate | Cmd_rollback | Cmd_status
  | Cmd_dump | Cmd_wait

fun closure_of :: "world \<Rightarrow> command \<Rightarrow> DB \<Rightarrow> Context \<Rightarrow> outcome" where
  "closure_of w Cmd_new = new_closure w"
| "closure_of w Cmd_up = up_closure w"
| "closure_of w Cmd_create = create_closure w"
| "closure_of w Cmd_drop = drop_closure w"
| "closure_of w Cmd_migrate = migrate_closure w"
| "closure_of w Cmd_rollback = rollback_closure w"
| "closure_of w Cmd_status = status_closure w"
| "closure_of w Cmd_dump = dump_closure w"
| "closure_of w Cmd_wait = wait_closure w"

definition Action :: "world \<Rightarrow> command \<Rightarrow> Context \<Rightarrow> outcome" where
  "Action w cmd c = action w (closure_of w cmd) c"

subsection \<open>Reading a trace\<close>

fun posts :: "event list \<Rightarrow> (string \<times> string \<times> string) list" where
  "posts [] = []"
| "posts (HTTP_POST url ctype body # es) = (url, ctype, body) # posts es"
| "posts (e # es) = posts es"

fun stdout_of :: "event list \<Rightarrow> string list" where
  "stdout_of [] = []"
| "stdout_of (Stdout s # es) = s # stdout_of es"
| "stdout_of (e # es) = stdout_of es"

subsection \<open>A concrete world for the examples\<close>

text \<open>
  The examples run the program in a world where the database URL is
  \<^verbatim>\<open>postgres://u:p@host/db\<close>, the engine, the status report and the POST answer as
  given, and no string needs an escape in JSON.
\<close>

definition sample_URL :: URL where
  "sample_URL = \<lparr>Scheme = ''postgres'', Opaque = [], User = Some (''u'', Some ''p''),
     Host = ''host'', Path = ''/db'', RawPath = [], ForceQuery = False, RawQuery = [],
     Fragment = []\<rparr>"

definition sample_New :: "URL \<Rightarrow> DB" where
  "sample_New u = \<lparr>DatabaseURL = u, AutoDumpSchema = True, MigrationsDir = ''./db/migrations'',
     SchemaFile = ''./db/schema.sql'', WaitBefore = False\<rparr>"

definition quoted :: "string \<Rightarrow> string" where
  "quoted s = ''\"'' @ s @ ''\"''"

definition sample_world ::
  "(string \<times> string) list \<Rightarrow> error option \<Rightarrow> int \<times> error option \<Rightarrow> error option \<Rightarrow> world" where
  "sample_world env migrate_result status_result post_result =
     \<lparr>environ = map_of env,
      url_parse_nonempty =
        (\<lambda>s. if s = ''postgres://u:p@host/db'' then Inr sample_URL
             else Inl (GoError (''parse '' @ quoted s @ '': missing protocol scheme''))),
      dbmate_New = sample_New,
      db_NewMigration = (\<lambda>db name. None),
      db_CreateAndMigrate = (\<lambda>db. None),
      db_Create = (\<lambda>db. None),
      db_Drop = (\<lambda>db. None),
      db_Migrate = (\<lambda>db. migrate_result),
      db_Rollback = (\<lambda>db. None),
      db_Status = (\<lambda>db quiet. status_result),
      db_DumpSchema = (\<lambda>db. None),
      db_Wait = (\<lambda>db. None),
      http_Post = (\<lambda>url ctype body. post_result),
      json_string = quoted\<rparr>"

definition sample_env :: "(string \<times> string) list" where
  "sample_env =
     [(''DATABASE_URL'', ''postgres://u:p@host/db''),
      (''SLACK_WEBHOOK_URL'', ''https://hooks.example/T1''),
      (''FOO'', ''1'')]"

definition sample_context :: "string \<Rightarrow> (string \<times> bool) list \<Rightarrow> Context" where
  "sample_context env_vars flags =
     \<lparr>globalStringFlags = map_of
        [(''env'', ''DATABASE_URL''),
         (''migrations-dir'', ''./db/migrations''),
         (''schema-file'', ''./db/schema.sql''),
         (''slack-webhook-var'', ''SLACK_WEBHOOK_URL''),
         (''env-vars'', env_vars)],
      globalBoolFlags = map_of [(''no-dump-schema'', False), (''wait'', False)],
      boolFlags = map_of flags,
      args = []\<rparr>"

definition sample_DB :: DB where
  "sample_DB = sample_New sample_URL"

lemmas sample_defs =
  sample_world_def sample_env_def sample_context_def sample_DB_def sample_New_def sample_URL_def
  quoted_def GlobalString_def GlobalBool_def Bool_def os_LookupEnv_def os_Getenv_def
  url_Parse_def getDatabaseURL_def configure_def

section \<open>Properties\<close>

subsection \<open>Auxiliary facts\<close>

lemma collect_fields_Slice:
  "collect_fields w names (Slice xs) =
     Slice (xs @ concat (map (\<lambda>n. case os_LookupEnv w n of None \<Rightarrow> []
                                    | Some v \<Rightarrow> [\<lparr>Title = n, Value = v\<rparr>]) names))"
  by (induction names arbitrary: xs) (auto simp: os_Getenv_def split: option.splits)

lemma concat_unset:
  "\<forall>name \<in> set names. os_LookupEnv w name = None \<Longrightarrow>
     concat (map (\<lambda>n. case os_LookupEnv w n of None \<Rightarrow> []
                                    | Some v \<Rightarrow> [\<lparr>Title = n, Value = v\<rparr>]) names) = []"
  by (induction names) simp_all

lemma migrate_closure_ok:
  "db_Migrate w db = None \<Longrightarrow> migrate_closure w db c = (None, [Engine_call db Op_Migrate])"
  by (simp add: migrate_closure_def)

lemma migrate_closure_unset:
  "os_LookupEnv w (GlobalString c ''slack-webhook-var'') = None \<Longrightarrow>
     migrate_closure w db c = (db_Migrate w db, [Engine_call db Op_Migrate])"
  by (simp add: migrate_closure_def Let_def split: option.splits)

lemma migrate_closure_notify:
  assumes "db_Migrate w db = Some e"
    and "os_LookupEnv w (GlobalString c ''slack-webhook-var'') = Some hook"
  shows "posts (snd (migrate_closure w db c)) =
     [(hook, ''application/json'',
       json_Marshal w \<lparr>Attachments = Slice
         [\<lparr>Color = ''#FF0000'',
           Pretext = ''There was an issue running migrations on this instance.'',
           Fallback = ''Migration had error: '' @ Error e,
           Text = Error e,
           Fields = collect_fields w
             (strings_Split (GlobalString c ''env-vars'') (CHR '','')) make_slice\<rparr>]\<rparr>)]"
  using assms by (simp add: migrate_closure_def os_Getenv_def Let_def)

lemma fst_migrate_closure: "fst (migrate_closure w db c) = db_Migrate w db"
  by (simp add: migrate_closure_def Let_def split: option.splits)

lemma action_parse_error:
  "getDatabaseURL w c = Inl err \<Longrightarrow> action w f c = (Some err, [])"
  by (simp add: action_def)

lemma action_parsed:
  "getDatabaseURL w c = Inr u \<Longrightarrow>
     action w f c = (fst (f (configure w c u) c), Dbmate_New u # snd (f (configure w c u) c))"
  by (simp add: action_def Let_def)

lemma getDatabaseURL_http_Post: "getDatabaseURL (w\<lparr>http_Post := p\<rparr>) c = getDatabaseURL w c"
  by (simp add: getDatabaseURL_def os_Getenv_def os_LookupEnv_def url_Parse_def Let_def)

lemma configure_http_Post: "configure (w\<lparr>http_Post := p\<rparr>) c u = configure w c u"
  by (simp add: configure_def Let_def)

lemma getDatabaseURL_boolFlags: "getDatabaseURL w (c\<lparr>boolFlags := m\<rparr>) = getDatabaseURL w c"
  by (simp add: getDatabaseURL_def GlobalString_def)

lemma configure_boolFlags: "configure w (c\<lparr>boolFlags := m\<rparr>) u = configure w c u"
  by (simp add: configure_def GlobalString_def GlobalBool_def)

lemma Bool_update_other:
  "name \<noteq> flag \<Longrightarrow> Bool (c\<lparr>boolFlags := (boolFlags c)(flag := x)\<rparr>) name = Bool c name"
  by (simp add: Bool_def)

lemma posts_other_closures:
  "posts (snd (new_closure w db c)) = []"
  "posts (snd (up_closure w db c)) = []"
  "posts (snd (create_closure w db c)) = []"
  "posts (snd (drop_closure w db c)) = []"
  "posts (snd (rollback_closure w db c)) = []"
  "posts (snd (dump_closure w db c)) = []"
  "posts (snd (wait_closure w db c)) = []"
  "posts (snd (status_closure w db c)) = []"
  by (simp_all add: new_closure_def up_closure_def create_closure_def drop_closure_def
      rollback_closure_def dump_closure_def wait_closure_def status_closure_def Let_def)

lemma posts_migrate_closure:
  "posts (snd (migrate_closure w db c)) \<noteq> [] \<longleftrightarrow>
     db_Migrate w db \<noteq> None \<and> os_LookupEnv w (GlobalString c ''slack-webhook-var'') \<noteq> None"
  by (simp add: migrate_closure_def Let_def split: option.splits)

lemma posts_closure_of:
  "posts (snd (closure_of w cmd db c)) \<noteq> [] \<longleftrightarrow>
     cmd = Cmd_migrate \<and> db_Migrate w db \<noteq> None
     \<and> os_LookupEnv w (GlobalString c ''slack-webhook-var'') \<noteq> None"
  by (cases cmd) (simp_all add: posts_other_closures posts_migrate_closure)

lemma status_closure_quiet:
  "Bool c ''quiet'' \<Longrightarrow>
     status_closure w db c =
       (let r = db_Status w db True
        in if snd r \<noteq> None then (snd r, [Engine_call db (Op_Status True)])
           else if fst r > 0 then (Some (NewExitError [] 1), [Engine_call db (Op_Status True)])
           else (None, [Engine_call db (Op_Status True)]))"
  by (simp add: status_closure_def Let_def)

subsection \<open>The migrate action: the returned error\<close>

text \<open>
  C1. For the migrate operation, once the database URL is resolved, the error the action
  returns is the one \<^verbatim>\<open>db.Migrate()\<close> returned on the configured handle: the same error
  when the migration fails, \<^verbatim>\<open>nil\<close> when it succeeds. This holds whatever the POST of
  the notification answers: replacing the transport by any other one (\<open>p\<close>) leaves the
  returned error the same.
\<close>

theorem migrate_returns_engine_error:
  assumes "getDatabaseURL w c = Inr u"
  shows "fst (Action w Cmd_migrate c) = db_Migrate w (configure w c u)
       \<and> fst (Action (w\<lparr>http_Post := p\<rparr>) Cmd_migrate c) = db_Migrate w (configure w c u)"
  using assms
  by (simp add: Action_def action_parsed fst_migrate_closure getDatabaseURL_http_Post
      configure_http_Post)

theorem migrate_returns_engine_error_witness:
  "fst (Action (sample_world sample_env (Some (GoError ''relation already exists'')) (0, None)
          (Some (GoError ''connection refused''))) Cmd_migrate (sample_context ''FOO,BAR'' []))
     = Some (GoError ''relation already exists'')
   \<and> fst (Action ((sample_world sample_env (Some (GoError ''relation already exists''))
          (0, None) (Some (GoError ''connection refused'')))\<lparr>http_Post := \<lambda>url ctype body. None\<rparr>)
          Cmd_migrate (sample_context ''FOO,BAR'' []))
     = Some (GoError ''relation already exists'')"
proof -
  have h: "getDatabaseURL (sample_world sample_env (Some (GoError ''relation already exists''))
             (0, None) (Some (GoError ''connection refused''))) (sample_context ''FOO,BAR'' [])
           = Inr sample_URL"
    by (simp add: sample_defs)
  show ?thesis
    using migrate_returns_engine_error [OF h, of "\<lambda>url ctype body. None"]
    by (simp add: sample_world_def)
qed

subsection \<open>The migrate action: when a POST is issued\<close>

text \<open>
  C2. Running any subcommand issues an HTTP POST if and only if the subcommand is migrate,
  \<^verbatim>\<open>db.Migrate()\<close> was called (the database URL was resolved) and returned an error, and
  the variable named by the flag \<^verbatim>\<open>slack-webhook-var\<close> is set in the environment. In
  particular, when the migration succeeds the action only builds the handle and calls
  the engine, and when the webhook variable is not set it does the same and returns the
  engine's error unchanged.
\<close>

theorem post_iff_migrate_failed_and_webhook_set:
  "(posts (snd (Action w cmd c)) \<noteq> [] \<longleftrightarrow>
      cmd = Cmd_migrate
      \<and> (\<exists>u e. getDatabaseURL w c = Inr u \<and> db_Migrate w (configure w c u) = Some e)
      \<and> os_LookupEnv w (GlobalString c ''slack-webhook-var'') \<noteq> None)
   \<and> (getDatabaseURL w c = Inr u \<and> db_Migrate w (configure w c u) = None
        \<longrightarrow> Action w Cmd_migrate c
             = (None, [Dbmate_New u, Engine_call (configure w c u) Op_Migrate]))
   \<and> (getDatabaseURL w c = Inr u
        \<and> os_LookupEnv w (GlobalString c ''slack-webhook-var'') = None
        \<longrightarrow> Action w Cmd_migrate c
             = (db_Migrate w (configure w c u),
                [Dbmate_New u, Engine_call (configure w c u) Op_Migrate]))"
proof (intro conjI impI)
  show "posts (snd (Action w cmd c)) \<noteq> [] \<longleftrightarrow>
      cmd = Cmd_migrate
      \<and> (\<exists>u e. getDatabaseURL w c = Inr u \<and> db_Migrate w (configure w c u) = Some e)
      \<and> os_LookupEnv w (GlobalString c ''slack-webhook-var'') \<noteq> None"
  proof (cases "getDatabaseURL w c")
    case (Inl err)
    then show ?thesis by (simp add: Action_def action_parse_error)
  next
    case (Inr u')
    then show ?thesis
      using posts_closure_of [of w cmd "configure w c u'" c]
      by (auto simp: Action_def action_parsed)
  qed
next
  assume "getDatabaseURL w c = Inr u \<and> db_Migrate w (configure w c u) = None"
  then show "Action w Cmd_migrate c
      = (None, [Dbmate_New u, Engine_call (configure w c u) Op_Migrate])"
    by (simp add: Action_def action_parsed migrate_closure_ok)
next
  assume "getDatabaseURL w c = Inr u
        \<and> os_LookupEnv w (GlobalString c ''slack-webhook-var'') = None"
  then show "Action w Cmd_migrate c
             = (db_Migrate w (configure w c u),
                [Dbmate_New u, Engine_call (configure w c u) Op_Migrate])"
    by (simp add: Action_def action_parsed migrate_closure_unset)
qed

theorem post_iff_migrate_failed_and_webhook_set_witness:
  "posts (snd (Action (sample_world sample_env (Some (GoError ''relation already exists''))
       (0, None) None) Cmd_migrate (sample_context ''FOO,BAR'' []))) \<noteq> []
   \<and> posts (snd (Action (sample_world sample_env (Some (GoError ''relation already exists''))
       (0, None) None) Cmd_up (sample_context ''FOO,BAR'' []))) = []
   \<and> Action (sample_world sample_env None (0, None) None) Cmd_migrate
       (sample_context ''FOO,BAR'' [])
       = (None, [Dbmate_New sample_URL, Engine_call sample_DB Op_Migrate])
   \<and> Action (sample_world [(''DATABASE_URL'', ''postgres://u:p@host/db'')]
       (Some (GoError ''relation already exists'')) (0, None) None) Cmd_migrate
       (sample_context ''FOO,BAR'' [])
       = (Some (GoError ''relation already exists''),
          [Dbmate_New sample_URL, Engine_call sample_DB Op_Migrate])"
proof -
  let ?fails = "sample_world sample_env (Some (GoError ''relation already exists'')) (0, None) None"
  let ?ok = "sample_world sample_env None (0, None) None"
  let ?unset = "sample_world [(''DATABASE_URL'', ''postgres://u:p@host/db'')]
       (Some (GoError ''relation already exists'')) (0, None) None"
  let ?c = "sample_context ''FOO,BAR'' []"
  have u: "getDatabaseURL ?fails ?c = Inr sample_URL" "getDatabaseURL ?ok ?c = Inr sample_URL"
    "getDatabaseURL ?unset ?c = Inr sample_URL"
    by (simp_all add: sample_defs)
  have d: "configure ?fails ?c sample_URL = sample_DB" "configure ?ok ?c sample_URL = sample_DB"
    "configure ?unset ?c sample_URL = sample_DB"
    by (simp_all add: sample_defs)
  have m: "db_Migrate ?fails sample_DB = Some (GoError ''relation already exists'')"
    "db_Migrate ?ok sample_DB = None"
    "db_Migrate ?unset sample_DB = Some (GoError ''relation already exists'')"
    by (simp_all add: sample_world_def)
  have h: "os_LookupEnv ?fails (GlobalString ?c ''slack-webhook-var'') \<noteq> None"
    "os_LookupEnv ?unset (GlobalString ?c ''slack-webhook-var'') = None"
    by (simp_all add: sample_defs)
  show ?thesis
    using post_iff_migrate_failed_and_webhook_set [of ?fails Cmd_migrate ?c sample_URL]
      post_iff_migrate_failed_and_webhook_set [of ?fails Cmd_up ?c sample_URL]
      post_iff_migrate_failed_and_webhook_set [of ?ok Cmd_migrate ?c sample_URL]
      post_iff_migrate_failed_and_webhook_set [of ?unset Cmd_migrate ?c sample_URL]
    by (simp add: u d m h)
qed

subsection \<open>The migrate action: the fields of the notification\<close>

text \<open>
  C3. When the migration fails with the error \<open>e\<close> and the webhook variable is set, the
  one message posted has as its fields, in the order of the names in the comma-split
  value of the flag \<^verbatim>\<open>env-vars\<close>, one pair for each name that is set in the environment,
  with the name as title and the value of the variable as value; a name that is not set
  gives no pair. With \<^verbatim>\<open>env-vars=FOO,BAR\<close> and only \<^verbatim>\<open>FOO=1\<close> set, the fields are the one
  pair of \<^verbatim>\<open>FOO\<close> and \<^verbatim>\<open>1\<close> (the example after the theorem).
\<close>

theorem posted_fields_follow_env_vars:
  assumes "db_Migrate w db = Some e"
    and "os_LookupEnv w (GlobalString c ''slack-webhook-var'') = Some hook"
  shows "posts (snd (migrate_closure w db c)) =
     [(hook, ''application/json'',
       json_Marshal w \<lparr>Attachments = Slice
         [\<lparr>Color = ''#FF0000'',
           Pretext = ''There was an issue running migrations on this instance.'',
           Fallback = ''Migration had error: '' @ Error e,
           Text = Error e,
           Fields = Slice (concat (map
             (\<lambda>name. case os_LookupEnv w name of
                        None \<Rightarrow> []
                      | Some v \<Rightarrow> [\<lparr>Title = name, Value = v\<rparr>])
             (strings_Split (GlobalString c ''env-vars'') (CHR '',''))))\<rparr>]\<rparr>)]"
  by (simp add: migrate_closure_notify [OF assms] make_slice_def collect_fields_Slice)

theorem posted_fields_follow_env_vars_witness:
  "posts (snd (migrate_closure (sample_world sample_env (Some (GoError ''boom'')) (0, None) None)
      sample_DB (sample_context ''FOO,BAR'' []))) =
     [(''https://hooks.example/T1'', ''application/json'',
       json_Marshal (sample_world sample_env (Some (GoError ''boom'')) (0, None) None)
         \<lparr>Attachments = Slice
           [\<lparr>Color = ''#FF0000'',
             Pretext = ''There was an issue running migrations on this instance.'',
             Fallback = ''Migration had error: boom'',
             Text = ''boom'',
             Fields = Slice [\<lparr>Title = ''FOO'', Value = ''1''\<rparr>]\<rparr>]\<rparr>)]
   \<and> json_text quoted (slice_json Field_json (Slice [\<lparr>Title = ''FOO'', Value = ''1''\<rparr>]))
       = ''[{\"title\":\"FOO\",\"value\":\"1\"}]''"
proof -
  let ?w = "sample_world sample_env (Some (GoError ''boom'')) (0, None) None"
  let ?c = "sample_context ''FOO,BAR'' []"
  have m: "db_Migrate ?w sample_DB = Some (GoError ''boom'')"
    by (simp add: sample_world_def)
  have h: "os_LookupEnv ?w (GlobalString ?c ''slack-webhook-var'') = Some ''https://hooks.example/T1''"
    by (simp add: sample_defs)
  have s: "strings_Split (GlobalString ?c ''env-vars'') (CHR '','') = [''FOO'', ''BAR'']"
    by (simp add: sample_defs strings_Split_def)
  have l: "os_LookupEnv ?w ''FOO'' = Some ''1''" "os_LookupEnv ?w ''BAR'' = None"
    by (simp_all add: sample_defs)
  have t: "json_text quoted (slice_json Field_json (Slice [\<lparr>Title = ''FOO'', Value = ''1''\<rparr>]))
       = ''[{\"title\":\"FOO\",\"value\":\"1\"}]''"
    by (simp add: slice_json_def Field_json_def quoted_def)
  show ?thesis
    using posted_fields_follow_env_vars [OF m h] by (simp add: s l t)
qed

subsection \<open>The migrate action: the body and the request\<close>

text \<open>
  C4. When the migration fails with the error \<open>e\<close> and the webhook variable holds
  \<open>hook\<close>, the action issues exactly one POST, to \<open>hook\<close>, with content type
  \<^verbatim>\<open>application/json\<close>, and its body is the text of a JSON object whose only member
  \<^verbatim>\<open>attachments\<close> is an array of one object with the members, in this order, \<^verbatim>\<open>color\<close>
  (\<^verbatim>\<open>#FF0000\<close>), \<^verbatim>\<open>pretext\<close> (the fixed sentence), \<^verbatim>\<open>fallback\<close> (\<^verbatim>\<open>Migration had error: \<close>
  followed by the message of \<open>e\<close>), \<^verbatim>\<open>text\<close> (the message of \<open>e\<close>) and \<^verbatim>\<open>fields\<close>.
\<close>

theorem posted_body_and_request:
  assumes "db_Migrate w db = Some e"
    and "os_LookupEnv w (GlobalString c ''slack-webhook-var'') = Some hook"
  shows "posts (snd (migrate_closure w db c)) =
     [(hook, ''application/json'',
       json_text (json_string w) (JObject
         [(''attachments'', JArray
            [JObject
               [(''color'', JString ''#FF0000''),
                (''pretext'',
                   JString ''There was an issue running migrations on this instance.''),
                (''fallback'', JString (''Migration had error: '' @ Error e)),
                (''text'', JString (Error e)),
                (''fields'', slice_json Field_json (collect_fields w
                    (strings_Split (GlobalString c ''env-vars'') (CHR '','')) make_slice))]])]))]"
  by (simp add: migrate_closure_notify [OF assms] json_Marshal_def SlackMessage_json_def
      SlackAttachment_json_def slice_json_def)

theorem posted_body_and_request_witness:
  "posts (snd (migrate_closure
      (sample_world sample_env (Some (GoError ''relation already exists'')) (0, None)
         (Some (GoError ''connection refused'')))
      sample_DB (sample_context ''FOO'' []))) =
     [(''https://hooks.example/T1'', ''application/json'',
       ''{\"attachments\":[{\"color\":\"#FF0000\",''
       @ ''\"pretext\":\"There was an issue running migrations on this instance.\",''
       @ ''\"fallback\":\"Migration had error: relation already exists\",''
       @ ''\"text\":\"relation already exists\",''
       @ ''\"fields\":[{\"title\":\"FOO\",\"value\":\"1\"}]}]}'')]"
proof -
  let ?w = "sample_world sample_env (Some (GoError ''relation already exists'')) (0, None)
         (Some (GoError ''connection refused''))"
  let ?c = "sample_context ''FOO'' []"
  have m: "db_Migrate ?w sample_DB = Some (GoError ''relation already exists'')"
    by (simp add: sample_world_def)
  have h: "os_LookupEnv ?w (GlobalString ?c ''slack-webhook-var'') = Some ''https://hooks.example/T1''"
    by (simp add: sample_defs)
  have s: "strings_Split (GlobalString ?c ''env-vars'') (CHR '','') = [''FOO'']"
    by (simp add: sample_defs strings_Split_def)
  have l: "os_LookupEnv ?w ''FOO'' = Some ''1''"
    by (simp add: sample_defs)
  have f: "collect_fields ?w (strings_Split (GlobalString ?c ''env-vars'') (CHR '','')) make_slice
      = Slice [\<lparr>Title = ''FOO'', Value = ''1''\<rparr>]"
    by (simp add: s make_slice_def os_Getenv_def l)
  have j: "json_string ?w = quoted"
    by (simp add: sample_world_def)
  show ?thesis
    using posted_body_and_request [OF m h]
    by (simp add: f j slice_json_def Field_json_def quoted_def)
qed

subsection \<open>The status action\<close>

text \<open>
  C5. In the status action, when \<^verbatim>\<open>db.Status\<close> returns no error, a pending count above
  zero, and exit-code behaviour is active (the flag \<^verbatim>\<open>exit-code\<close> or the flag \<^verbatim>\<open>quiet\<close>
  is set), the action returns the exit signal \<^verbatim>\<open>cli.NewExitError("", 1)\<close>: its message is
  empty, its exit code is 1, and it is not an ordinary error. When the count is not above
  zero, or exit-code behaviour is not active, the action returns \<^verbatim>\<open>nil\<close>. An error of
  the engine is returned as it is. In every case the action itself writes nothing: its
  only event is the call of \<^verbatim>\<open>db.Status\<close>.
\<close>

theorem status_exit_signal:
  "(snd (db_Status w db (Bool c ''quiet'')) = None
      \<and> 0 < fst (db_Status w db (Bool c ''quiet''))
      \<and> (Bool c ''exit-code'' \<or> Bool c ''quiet'')
      \<longrightarrow> status_closure w db c
            = (Some (NewExitError [] 1), [Engine_call db (Op_Status (Bool c ''quiet''))]))
   \<and> (snd (db_Status w db (Bool c ''quiet'')) = None
      \<and> (fst (db_Status w db (Bool c ''quiet'')) \<le> 0
           \<or> \<not> (Bool c ''exit-code'' \<or> Bool c ''quiet''))
      \<longrightarrow> status_closure w db c = (None, [Engine_call db (Op_Status (Bool c ''quiet''))]))
   \<and> (snd (db_Status w db (Bool c ''quiet'')) = Some e
      \<longrightarrow> status_closure w db c = (Some e, [Engine_call db (Op_Status (Bool c ''quiet''))]))
   \<and> Error (NewExitError [] 1) = []
   \<and> ExitCode (NewExitError [] 1) = Some 1
   \<and> NewExitError [] 1 \<noteq> GoError msg
   \<and> stdout_of (snd (status_closure w db c)) = []"
  by (auto simp: status_closure_def Let_def NewExitError_def)

theorem status_exit_signal_witness:
  "status_closure (sample_world sample_env None (3, None) None) sample_DB
      (sample_context [] [(''exit-code'', True)])
     = (Some (ExitError [] 1), [Engine_call sample_DB (Op_Status False)])
   \<and> status_closure (sample_world sample_env None (0, None) None) sample_DB
      (sample_context [] [(''exit-code'', True)])
     = (None, [Engine_call sample_DB (Op_Status False)])
   \<and> status_closure (sample_world sample_env None (3, None) None) sample_DB
      (sample_context [] [])
     = (None, [Engine_call sample_DB (Op_Status False)])
   \<and> status_closure (sample_world sample_env None (0, Some (GoError ''no such table'')) None)
      sample_DB (sample_context [] [(''exit-code'', True)])
     = (Some (GoError ''no such table''), [Engine_call sample_DB (Op_Status False)])"
proof -
  let ?w3 = "sample_world sample_env None (3, None) None"
  let ?w0 = "sample_world sample_env None (0, None) None"
  let ?we = "sample_world sample_env None (0, Some (GoError ''no such table'')) None"
  let ?cx = "sample_context [] [(''exit-code'', True)]"
  let ?cn = "sample_context [] []"
  have b: "Bool ?cx ''exit-code''" "\<not> Bool ?cx ''quiet''"
    "\<not> Bool ?cn ''exit-code''" "\<not> Bool ?cn ''quiet''"
    by (simp_all add: sample_context_def Bool_def)
  have r: "db_Status ?w3 sample_DB False = (3, None)" "db_Status ?w0 sample_DB False = (0, None)"
    "db_Status ?we sample_DB False = (0, Some (GoError ''no such table''))"
    by (simp_all add: sample_world_def)
  show ?thesis
    using status_exit_signal [of ?w3 sample_DB ?cx "GoError []" "[]"]
      status_exit_signal [of ?w0 sample_DB ?cx "GoError []" "[]"]
      status_exit_signal [of ?w3 sample_DB ?cn "GoError []" "[]"]
      status_exit_signal [of ?we sample_DB ?cx "GoError ''no such table''" "[]"]
    by (simp add: b r NewExitError_def)
qed

text \<open>
  C6. With the flag \<^verbatim>\<open>quiet\<close> set, the status action does the same whatever the flag
  \<^verbatim>\<open>exit-code\<close> is (absent, explicitly false or explicitly true, the \<open>x\<close> below) as it does
  with \<^verbatim>\<open>exit-code\<close> set: the closure and the wrapped action give the same error and the
  same events.
\<close>

theorem status_quiet_implies_exit_code:
  assumes "Bool c ''quiet''"
  shows "status_closure w db (c\<lparr>boolFlags := (boolFlags c)(''exit-code'' := x)\<rparr>)
           = status_closure w db (c\<lparr>boolFlags := (boolFlags c)(''exit-code'' \<mapsto> True)\<rparr>)
       \<and> Action w Cmd_status (c\<lparr>boolFlags := (boolFlags c)(''exit-code'' := x)\<rparr>)
           = Action w Cmd_status (c\<lparr>boolFlags := (boolFlags c)(''exit-code'' \<mapsto> True)\<rparr>)"
proof -
  have q: "Bool (c\<lparr>boolFlags := (boolFlags c)(''exit-code'' := y)\<rparr>) ''quiet''" for y
    using assms by (simp add: Bool_update_other)
  have eq: "status_closure w d (c\<lparr>boolFlags := (boolFlags c)(''exit-code'' := x)\<rparr>)
           = status_closure w d (c\<lparr>boolFlags := (boolFlags c)(''exit-code'' \<mapsto> True)\<rparr>)" for d
    by (simp add: status_closure_quiet [OF q])
  show ?thesis
    by (simp add: eq Action_def action_def getDatabaseURL_boolFlags configure_boolFlags
        split: sum.splits)
qed

theorem status_quiet_implies_exit_code_witness:
  "Bool (sample_context [] [(''quiet'', True)]) ''quiet''
   \<and> Action (sample_world sample_env None (3, None) None) Cmd_status
       ((sample_context [] [(''quiet'', True)])
          \<lparr>boolFlags := (boolFlags (sample_context [] [(''quiet'', True)]))
             (''exit-code'' \<mapsto> False)\<rparr>)
     = (Some (ExitError [] 1), [Dbmate_New sample_URL, Engine_call sample_DB (Op_Status True)])
   \<and> Action (sample_world sample_env None (3, None) None) Cmd_status
       ((sample_context [] [(''quiet'', True)])
          \<lparr>boolFlags := (boolFlags (sample_context [] [(''quiet'', True)]))
             (''exit-code'' \<mapsto> True)\<rparr>)
     = (Some (ExitError [] 1), [Dbmate_New sample_URL, Engine_call sample_DB (Op_Status True)])"
proof -
  let ?w = "sample_world sample_env None (3, None) None"
  let ?c = "sample_context [] [(''quiet'', True)]"
  have q: "Bool ?c ''quiet''"
    by (simp add: sample_context_def Bool_def)
  have t: "Action ?w Cmd_status (?c\<lparr>boolFlags := (boolFlags ?c)(''exit-code'' \<mapsto> True)\<rparr>)
     = (Some (ExitError [] 1), [Dbmate_New sample_URL, Engine_call sample_DB (Op_Status True)])"
    by (simp add: Action_def action_def status_closure_def NewExitError_def Let_def sample_defs)
  show ?thesis
    using status_quiet_implies_exit_code [OF q, of ?w sample_DB "Some False"] q t by simp
qed

subsection \<open>Resolving the database URL\<close>

text \<open>
  C7. For every subcommand, and for every closure wrapped by \<^verbatim>\<open>action\<close>: when
  \<^verbatim>\<open>url.Parse\<close> fails on the value of the variable named by the flag \<^verbatim>\<open>env\<close>, the action
  returns that error and causes no event: the handle is not built and the engine is not
  called.
\<close>

theorem parse_error_is_terminal:
  assumes "url_Parse w (os_Getenv w (GlobalString c ''env'')) = Inl err"
  shows "getDatabaseURL w c = Inl err
       \<and> Action w cmd c = (Some err, [])
       \<and> action w f c = (Some err, [])"
  using assms by (simp add: Action_def action_def getDatabaseURL_def Let_def)

theorem parse_error_is_terminal_witness:
  "Action (sample_world [(''DATABASE_URL'', '':'')] None (0, None) None) Cmd_migrate
      (sample_context [] [])
     = (Some (GoError ''parse \":\": missing protocol scheme''), [])
   \<and> Action (sample_world [(''DATABASE_URL'', '':'')] None (0, None) None) Cmd_status
      (sample_context [] [])
     = (Some (GoError ''parse \":\": missing protocol scheme''), [])"
proof -
  let ?w = "sample_world [(''DATABASE_URL'', '':'')] None (0, None) None"
  let ?c = "sample_context [] []"
  have h: "url_Parse ?w (os_Getenv ?w (GlobalString ?c ''env''))
      = Inl (GoError ''parse \":\": missing protocol scheme'')"
    by (simp add: sample_defs)
  show ?thesis
    using parse_error_is_terminal [OF h, of Cmd_migrate "closure_of ?w Cmd_migrate"]
      parse_error_is_terminal [OF h, of Cmd_status "closure_of ?w Cmd_status"]
    by simp
qed

text \<open>
  C8. When the variable named by the flag \<^verbatim>\<open>env\<close> is not set, \<^verbatim>\<open>os.Getenv\<close> gives the
  empty string, \<^verbatim>\<open>getDatabaseURL\<close> parses it into the empty URL without an error, and
  \<^verbatim>\<open>action\<close> goes on: it builds the handle from the empty URL and runs the closure.
\<close>

theorem unset_database_url_parses_empty:
  assumes "os_LookupEnv w (GlobalString c ''env'') = None"
  shows "os_Getenv w (GlobalString c ''env'') = []
       \<and> getDatabaseURL w c = Inr empty_URL
       \<and> action w f c
           = (fst (f (configure w c empty_URL) c),
              Dbmate_New empty_URL # snd (f (configure w c empty_URL) c))"
  using assms by (simp add: action_def getDatabaseURL_def os_Getenv_def url_Parse_def Let_def)

theorem unset_database_url_parses_empty_witness:
  "getDatabaseURL (sample_world [(''FOO'', ''1'')] None (0, None) None) (sample_context [] [])
     = Inr empty_URL
   \<and> action (sample_world [(''FOO'', ''1'')] None (0, None) None)
       (create_closure (sample_world [(''FOO'', ''1'')] None (0, None) None))
       (sample_context [] [])
     = (None, [Dbmate_New empty_URL, Engine_call (sample_New empty_URL) Op_Create])"
proof -
  let ?w = "sample_world [(''FOO'', ''1'')] None (0, None) None"
  let ?c = "sample_context [] []"
  have h: "os_LookupEnv ?w (GlobalString ?c ''env'') = None"
    by (simp add: sample_defs)
  have d: "configure ?w ?c empty_URL = sample_New empty_URL"
    by (simp add: sample_defs)
  have r: "create_closure ?w (sample_New empty_URL) ?c
      = (None, [Engine_call (sample_New empty_URL) Op_Create])"
    by (simp add: create_closure_def sample_world_def)
  show ?thesis
    using unset_database_url_parses_empty [OF h, of "create_closure ?w"] by (simp add: d r)
qed

subsection \<open>The migrate action: empty and unset context\<close>

text \<open>
  C9. Splitting the empty value of the flag \<^verbatim>\<open>env-vars\<close> on commas gives the list of one
  empty name; the empty name is never found in the environment; so the loop collects no
  field, as it does for an empty list of names, and the message posted has the empty
  slice as its fields. Nothing in the closure treats the empty flag apart.
\<close>

theorem empty_env_vars_no_fields:
  "strings_Split [] (CHR '','') = [[]]
   \<and> os_LookupEnv w [] = None
   \<and> collect_fields w (strings_Split [] (CHR '','')) make_slice = Slice []
   \<and> collect_fields w [] make_slice = Slice []
   \<and> (GlobalString c ''env-vars'' = [] \<and> db_Migrate w db = Some e
        \<and> os_LookupEnv w (GlobalString c ''slack-webhook-var'') = Some hook
      \<longrightarrow> posts (snd (migrate_closure w db c)) =
           [(hook, ''application/json'',
             json_Marshal w \<lparr>Attachments = Slice
               [\<lparr>Color = ''#FF0000'',
                 Pretext = ''There was an issue running migrations on this instance.'',
                 Fallback = ''Migration had error: '' @ Error e,
                 Text = Error e,
                 Fields = Slice []\<rparr>]\<rparr>)])"
  by (simp add: strings_Split_def os_LookupEnv_def make_slice_def migrate_closure_notify)

theorem empty_env_vars_no_fields_witness:
  "posts (snd (migrate_closure (sample_world sample_env (Some (GoError ''boom'')) (0, None) None)
      sample_DB (sample_context [] []))) =
     [(''https://hooks.example/T1'', ''application/json'',
       json_Marshal (sample_world sample_env (Some (GoError ''boom'')) (0, None) None)
         \<lparr>Attachments = Slice
           [\<lparr>Color = ''#FF0000'',
             Pretext = ''There was an issue running migrations on this instance.'',
             Fallback = ''Migration had error: boom'',
             Text = ''boom'',
             Fields = Slice []\<rparr>]\<rparr>)]"
proof -
  let ?w = "sample_world sample_env (Some (GoError ''boom'')) (0, None) None"
  let ?c = "sample_context [] []"
  have g: "GlobalString ?c ''env-vars'' = []"
    by (simp add: sample_context_def GlobalString_def)
  have m: "db_Migrate ?w sample_DB = Some (GoError ''boom'')"
    by (simp add: sample_world_def)
  have h: "os_LookupEnv ?w (GlobalString ?c ''slack-webhook-var'') = Some ''https://hooks.example/T1''"
    by (simp add: sample_defs)
  show ?thesis
    using empty_env_vars_no_fields [of ?w ?c sample_DB "GoError ''boom''" "''https://hooks.example/T1''"]
    by (simp add: g m h)
qed

text \<open>
  C10. When a notification is sent and no name of the split flag \<^verbatim>\<open>env-vars\<close> is set in
  the environment, the slice of fields is empty and not \<^verbatim>\<open>nil\<close> (it starts as
  \<^verbatim>\<open>make([]Field, 0)\<close>), so its JSON is the empty array, not \<^verbatim>\<open>null\<close>, and the body posted
  ends with the member \<^verbatim>\<open>"fields":[]\<close> of the attachment.
\<close>

theorem no_context_fields_empty_array:
  assumes "db_Migrate w db = Some e"
    and "os_LookupEnv w (GlobalString c ''slack-webhook-var'') = Some hook"
    and "\<forall>name \<in> set (strings_Split (GlobalString c ''env-vars'') (CHR '','')).
           os_LookupEnv w name = None"
  shows "collect_fields w (strings_Split (GlobalString c ''env-vars'') (CHR '','')) make_slice
           = Slice []
       \<and> slice_json Field_json
           (collect_fields w (strings_Split (GlobalString c ''env-vars'') (CHR '','')) make_slice)
           = JArray []
       \<and> posts (snd (migrate_closure w db c)) =
           [(hook, ''application/json'',
             ''{\"attachments\":[{\"color\":'' @ json_string w ''#FF0000''
             @ '',\"pretext\":''
             @ json_string w ''There was an issue running migrations on this instance.''
             @ '',\"fallback\":'' @ json_string w (''Migration had error: '' @ Error e)
             @ '',\"text\":'' @ json_string w (Error e)
             @ '',\"fields\":[]}]}'')]"
proof -
  have f: "collect_fields w (strings_Split (GlobalString c ''env-vars'') (CHR '','')) make_slice
           = Slice []"
    using assms(3) by (simp add: make_slice_def collect_fields_Slice concat_unset)
  show ?thesis
    by (simp add: f migrate_closure_notify [OF assms(1,2)] json_Marshal_def
        SlackMessage_json_def SlackAttachment_json_def slice_json_def)
qed

theorem no_context_fields_empty_array_witness:
  "posts (snd (migrate_closure (sample_world sample_env (Some (GoError ''boom'')) (0, None) None)
      sample_DB (sample_context ''BAR,BAZ'' []))) =
     [(''https://hooks.example/T1'', ''application/json'',
       ''{\"attachments\":[{\"color\":\"#FF0000\",''
       @ ''\"pretext\":\"There was an issue running migrations on this instance.\",''
       @ ''\"fallback\":\"Migration had error: boom\",''
       @ ''\"text\":\"boom\",''
       @ ''\"fields\":[]}]}'')]"
proof -
  let ?w = "sample_world sample_env (Some (GoError ''boom'')) (0, None) None"
  let ?c = "sample_context ''BAR,BAZ'' []"
  have m: "db_Migrate ?w sample_DB = Some (GoError ''boom'')"
    by (simp add: sample_world_def)
  have h: "os_LookupEnv ?w (GlobalString ?c ''slack-webhook-var'') = Some ''https://hooks.example/T1''"
    by (simp add: sample_defs)
  have n: "\<forall>name \<in> set (strings_Split (GlobalString ?c ''env-vars'') (CHR '','')).
           os_LookupEnv ?w name = None"
    by (simp add: sample_defs strings_Split_def)
  have j: "json_string ?w = quoted"
    by (simp add: sample_world_def)
  show ?thesis
    using no_context_fields_empty_array [OF m h n] by (simp add: j quoted_def)
qed


end
